theory Spec2Isabelle
  imports Complex_Main "HOL-Library.AList" "HOL-Library.Sublist" "HOL-Library.Log_Nat"
begin

section \<open>Report processing pipeline: data model\<close>

text \<open>
  The development embeds \<^verbatim>\<open>app/services/report_processing.py\<close>,
  \<^verbatim>\<open>app/utils/ml_model.py\<close> and the upload handler of
  \<^verbatim>\<open>app/api/v1/reports.py\<close>.

  Conventions of the embedding:
  \<^item> A Python \<^verbatim>\<open>str\<close> is a \<^typ>\<open>string\<close> whose characters are code points below 256;
    text with characters beyond that range is outside the model.
  \<^item> A Python \<^verbatim>\<open>float\<close> is a \<^typ>\<open>rat\<close>, with the comparisons of the rationals. The
    division and the multiplication of the rule-based risk score round their exact result
    to double precision (\<open>round_double\<close> below); a decimal token and the product of the
    model-based score are taken exactly. Infinities and NaN are not modelled.
  \<^item> A Python \<^verbatim>\<open>dict\<close> is an association list in insertion order; assigning to a key that
    is present replaces its value in place, assigning to a new key appends
    (\<^const>\<open>AList.update\<close>).
  \<^item> A raised exception is the \<open>Inl\<close> branch of a sum.
\<close>

text \<open>
  The exceptions of the modelled code. \<open>UnsupportedFileType\<close> is the \<^verbatim>\<open>ValueError\<close> that
  \<^verbatim>\<open>process_report_file\<close> raises itself; \<open>ExtractionFailed\<close>, \<open>ModelFailure\<close> and
  \<open>DatabaseError\<close> stand for whatever the OCR/PDF/CSV libraries, scikit-learn and the
  database layer raise; \<open>HTTPException\<close> carries the status code and, for its detail, the
  exception it was built from.
\<close>

datatype error =
    UnsupportedFileType string
  | KeyError string
  | IndexError
  | ZeroDivisionError
  | FileNotFoundError string
  | ExtractionFailed string
  | ModelFailure string
  | DatabaseError string
  | HTTPException nat error

record range_info =
  rmin :: rat
  rmax :: rat
  runit :: string

text \<open>The two units written with a Greek mu in the source are kept as their UTF-8 bytes.\<close>

definition NORMAL_RANGES :: "(string \<times> range_info) list" where
  "NORMAL_RANGES =
    [(''Hemoglobin'', \<lparr>rmin = 12, rmax = 16, runit = ''g/dL''\<rparr>),
     (''RBC'', \<lparr>rmin = 4, rmax = 11 / 2, runit = ''million/'' @ [CHR 0xCE, CHR 0xBC] @ ''L''\<rparr>),
     (''WBC'', \<lparr>rmin = 4, rmax = 11, runit = ''thousand/'' @ [CHR 0xCE, CHR 0xBC] @ ''L''\<rparr>),
     (''Platelets'', \<lparr>rmin = 150, rmax = 450, runit = ''thousand/'' @ [CHR 0xCE, CHR 0xBC] @ ''L''\<rparr>),
     (''Glucose'', \<lparr>rmin = 70, rmax = 100, runit = ''mg/dL''\<rparr>),
     (''Cholesterol'', \<lparr>rmin = 0, rmax = 200, runit = ''mg/dL''\<rparr>),
     (''HDL'', \<lparr>rmin = 40, rmax = 60, runit = ''mg/dL''\<rparr>),
     (''LDL'', \<lparr>rmin = 0, rmax = 130, runit = ''mg/dL''\<rparr>),
     (''Triglycerides'', \<lparr>rmin = 0, rmax = 150, runit = ''mg/dL''\<rparr>)]"

record insight_info =
  info_insight :: string
  info_recommendation :: string

definition HEALTH_INSIGHTS :: "(string \<times> (string \<times> insight_info) list) list" where
  "HEALTH_INSIGHTS =
    [(''Hemoglobin'',
       [(''low'', \<lparr>info_insight = ''Possible anemia'',
           info_recommendation = ''Consult a doctor for possible iron deficiency. Consider iron-rich foods like spinach, red meat, and legumes.''\<rparr>),
        (''high'', \<lparr>info_insight = ''Possible dehydration or other conditions'',
           info_recommendation = ''Ensure adequate hydration and consult a doctor for further evaluation.''\<rparr>)]),
     (''Glucose'',
       [(''high'', \<lparr>info_insight = ''Risk of diabetes'',
           info_recommendation = ''Monitor blood sugar levels. Reduce sugar intake and consult a doctor.''\<rparr>),
        (''low'', \<lparr>info_insight = ''Possible hypoglycemia'',
           info_recommendation = ''Eat regular meals and consult a doctor if symptoms persist.''\<rparr>)]),
     (''Cholesterol'',
       [(''high'', \<lparr>info_insight = ''Risk of cardiovascular disease'',
           info_recommendation = ''Reduce saturated fat intake, exercise regularly, and consult a doctor.''\<rparr>)]),
     (''WBC'',
       [(''high'', \<lparr>info_insight = ''Possible infection or inflammation'',
           info_recommendation = ''Monitor for signs of infection and consult a doctor if symptoms develop.''\<rparr>),
        (''low'', \<lparr>info_insight = ''Possible immune system issues'',
           info_recommendation = ''Avoid exposure to infections and consult a doctor.''\<rparr>)])]"

section \<open>String primitives used by the parameter extractor\<close>

text \<open>\<^verbatim>\<open>str.lower()\<close> on code points below 256: the ASCII capitals and the Latin-1
  capitals (all of 192..222 but the multiplication sign 215) move up by 32.\<close>

definition lower_char :: "char \<Rightarrow> char" where
  "lower_char c =
     (let n = (of_char c :: nat)
      in if (65 \<le> n \<and> n \<le> 90) \<or> (192 \<le> n \<and> n \<le> 222 \<and> n \<noteq> 215)
         then char_of (n + 32) else c)"

definition lower :: "string \<Rightarrow> string" where
  "lower s = map lower_char s"

text \<open>\<^verbatim>\<open>p in s\<close> on strings: \<open>p\<close> occurs as a contiguous block of \<open>s\<close>.\<close>

fun contains :: "string \<Rightarrow> string \<Rightarrow> bool" where
  "contains [] p = (p = [])"
| "contains (c # cs) p = (prefix p (c # cs) \<or> contains cs p)"

text \<open>\<^verbatim>\<open>text.split('\n')\<close>: the pieces between line feeds, empty pieces included.\<close>

fun split_lines :: "string \<Rightarrow> string list" where
  "split_lines [] = [[]]"
| "split_lines (c # cs) =
     (if c = CHR 0x0A then [] # split_lines cs
      else (case split_lines cs of [] \<Rightarrow> [[c]] | l # ls \<Rightarrow> (c # l) # ls))"

definition is_digit :: "char \<Rightarrow> bool" where
  "is_digit c = (let n = (of_char c :: nat) in 48 \<le> n \<and> n \<le> 57)"

text \<open>
  \<^verbatim>\<open>re.findall(r'\d+\.?\d*', line)\<close>: all non-overlapping matches, left to right. The
  scanner is either outside a match, inside the leading digit run, or past the decimal
  point; the token read so far is carried along. Every quantifier of the pattern is greedy,
  so a match is extended for as long as the next character fits.
\<close>

datatype scan_state = Outside | InInt string | InFrac string

fun scan_numbers :: "scan_state \<Rightarrow> string \<Rightarrow> string list" where
  "scan_numbers Outside [] = []"
| "scan_numbers (InInt tok) [] = [tok]"
| "scan_numbers (InFrac tok) [] = [tok]"
| "scan_numbers Outside (c # cs) =
     (if is_digit c then scan_numbers (InInt [c]) cs else scan_numbers Outside cs)"
| "scan_numbers (InInt tok) (c # cs) =
     (if is_digit c then scan_numbers (InInt (tok @ [c])) cs
      else if c = CHR ''.'' then scan_numbers (InFrac (tok @ [c])) cs
      else tok # scan_numbers Outside cs)"
| "scan_numbers (InFrac tok) (c # cs) =
     (if is_digit c then scan_numbers (InFrac (tok @ [c])) cs
      else tok # scan_numbers Outside cs)"

definition findall_numbers :: "string \<Rightarrow> string list" where
  "findall_numbers line = scan_numbers Outside line"

text \<open>\<^verbatim>\<open>float(tok)\<close> for a token of the pattern: digits, then optionally a point and
  more digits.\<close>

definition digit_val :: "char \<Rightarrow> nat" where
  "digit_val c = of_char c - 48"

definition digits_val :: "string \<Rightarrow> nat" where
  "digits_val ds = foldl (\<lambda>n c. 10 * n + digit_val c) 0 ds"

definition float_of :: "string \<Rightarrow> rat" where
  "float_of tok =
     (let ip = takeWhile is_digit tok;
          fp = drop (Suc (length ip)) tok
      in of_nat (digits_val ip) + of_nat (digits_val fp) / 10 ^ length fp)"

section \<open>Parameter extractor\<close>

text \<open>
  The inner loop of \<^verbatim>\<open>parse_medical_data\<close> over the parameter names, for one line: the
  first name that occurs in the line (case-insensitively) while the line holds a number
  is assigned that number, and the loop breaks. \<open>None\<close> when the loop ends without an
  assignment.
\<close>

fun scan_parameters :: "string list \<Rightarrow> string \<Rightarrow> (string \<times> rat) option" where
  "scan_parameters [] line = None"
| "scan_parameters (parameter # ps) line =
     (if contains (lower line) (lower parameter)
      then (case findall_numbers line of
              [] \<Rightarrow> scan_parameters ps line
            | n # _ \<Rightarrow> Some (parameter, float_of n))
      else scan_parameters ps line)"

text \<open>The outer loop over the lines, threading the dictionary \<^verbatim>\<open>data\<close>.\<close>

fun parse_lines :: "(string \<times> rat) list \<Rightarrow> string list \<Rightarrow> (string \<times> rat) list" where
  "parse_lines data [] = data"
| "parse_lines data (line # lines) =
     (case scan_parameters (map fst NORMAL_RANGES) line of
        None \<Rightarrow> parse_lines data lines
      | Some (parameter, v) \<Rightarrow> parse_lines (AList.update parameter v data) lines)"

definition parse_medical_data :: "string \<Rightarrow> (string \<times> rat) list" where
  "parse_medical_data text = parse_lines [] (split_lines text)"

section \<open>Classifier\<close>

record classified =
  parameter :: string
  val :: rat
  unit :: string
  range_min :: rat
  range_max :: rat
  classification :: string

fun classify_data :: "(string \<times> rat) list \<Rightarrow> classified list" where
  "classify_data [] = []"
| "classify_data ((p, v) # rest) =
     (case map_of NORMAL_RANGES p of
        None \<Rightarrow> classify_data rest
      | Some range_info \<Rightarrow>
          (let min_val = rmin range_info;
               max_val = rmax range_info;
               c = (if v < min_val then ''Low''
                    else if v > max_val then ''High''
                    else ''Normal'')
           in \<lparr>parameter = p, val = v, unit = runit range_info,
                range_min = min_val, range_max = max_val, classification = c\<rparr>
              # classify_data rest))"

section \<open>Insight engine\<close>

record insight =
  ins_parameter :: string
  ins_insight :: string
  ins_recommendation :: string

text \<open>Subscripting a dictionary with a key it does not hold raises \<^verbatim>\<open>KeyError\<close>.\<close>

definition getitem :: "(string \<times> 'v) list \<Rightarrow> string \<Rightarrow> error + 'v" where
  "getitem d k = (case map_of d k of None \<Rightarrow> Inl (KeyError k) | Some v \<Rightarrow> Inr v)"

fun generate_insights :: "classified list \<Rightarrow> error + insight list" where
  "generate_insights [] = Inr []"
| "generate_insights (d # rest) =
     (if parameter d \<in> set (map fst HEALTH_INSIGHTS) \<and> classification d \<in> set [''Low'', ''High'']
      then (case getitem HEALTH_INSIGHTS (parameter d) of
              Inl e \<Rightarrow> Inl e
            | Inr verdicts \<Rightarrow>
                (case getitem verdicts (lower (classification d)) of
                   Inl e \<Rightarrow> Inl e
                 | Inr insight_info \<Rightarrow>
                     (case generate_insights rest of
                        Inl e \<Rightarrow> Inl e
                      | Inr insights \<Rightarrow>
                          Inr (\<lparr>ins_parameter = parameter d,
                                ins_insight = info_insight insight_info,
                                ins_recommendation = info_recommendation insight_info\<rparr>
                               # insights))))
      else generate_insights rest)"

section \<open>Risk scoring\<close>

subsection \<open>Rule-based score\<close>

text \<open>
  Double precision. A non-zero rational is scaled by a power of two into the range of a
  53-bit significand and rounded to the nearest integer, ties to the even one: IEEE 754
  binary64 with the default rounding, for values in the normal range (no overflow, no
  subnormal numbers). \<open>floor_log2 q\<close> is the exponent \<open>k\<close> with \<open>2^k \<le> q < 2^(k+1)\<close>.
\<close>

definition floor_log2 :: "rat \<Rightarrow> int" where
  "floor_log2 q =
     (let (a, b) = quotient_of q; k = bitlen a - bitlen b
      in if 2 powi k \<le> q then k else k - 1)"

definition round_half_even :: "rat \<Rightarrow> int" where
  "round_half_even q =
     (let f = \<lfloor>q\<rfloor>; d = q - of_int f
      in if d < 1 / 2 then f else if d > 1 / 2 then f + 1 else if even f then f else f + 1)"

definition round_double :: "rat \<Rightarrow> rat" where
  "round_double q =
     (if q = 0 then 0
      else (let e = floor_log2 \<bar>q\<bar> - 52
            in sgn q * of_int (round_half_even (\<bar>q\<bar> / 2 powi e)) * 2 powi e))"

text \<open>\<^verbatim>\<open>a / b\<close> on two \<^verbatim>\<open>int\<close>s (here two counts): the correctly rounded quotient, or
  \<^verbatim>\<open>ZeroDivisionError\<close>. \<^verbatim>\<open>x * y\<close> on floats: the correctly rounded product.\<close>

definition truediv :: "nat \<Rightarrow> nat \<Rightarrow> error + rat" where
  "truediv a b =
     (if b = 0 then Inl ZeroDivisionError else Inr (round_double (of_nat a / of_nat b)))"

definition float_mul :: "rat \<Rightarrow> rat \<Rightarrow> rat" where
  "float_mul x y = round_double (x * y)"

fun count_abnormal :: "nat \<Rightarrow> classified list \<Rightarrow> nat" where
  "count_abnormal total_abnormal [] = total_abnormal"
| "count_abnormal total_abnormal (d # rest) =
     (if classification d \<in> set [''Low'', ''High'']
      then count_abnormal (total_abnormal + 1) rest
      else count_abnormal total_abnormal rest)"

definition calculate_risk_score :: "classified list \<Rightarrow> error + rat" where
  "calculate_risk_score processed_data =
     (let total_parameters = length processed_data
      in if total_parameters = 0 then Inr 0
         else (let total_abnormal = count_abnormal 0 processed_data
               in case truediv total_abnormal total_parameters of
                    Inl e \<Rightarrow> Inl e
                  | Inr q \<Rightarrow> Inr (float_mul q 100)))"

subsection \<open>Model-based score\<close>

text \<open>
  \<^verbatim>\<open>HealthRiskPredictor\<close>. The fitted classifier and scaler are scikit-learn objects; the
  model keeps them abstract (\<open>'m\<close>, \<open>'s\<close>) and takes the two library calls made on them,
  \<^verbatim>\<open>scaler.transform\<close> and \<^verbatim>\<open>model.predict_proba\<close>, as parameters that may raise.
\<close>

record ('m, 's) predictor =
  model :: "'m option"
  scaler :: 's
  is_trained :: bool

definition parameters :: "string list" where
  "parameters = [''Hemoglobin'', ''WBC'', ''RBC'', ''Platelets'', ''Glucose'',
                 ''Cholesterol'', ''HDL'', ''LDL'', ''Triglycerides'']"

definition default_values :: "(string \<times> rat) list" where
  "default_values =
     [(''Hemoglobin'', 14), (''WBC'', 15 / 2), (''RBC'', 47 / 10), (''Platelets'', 300),
      (''Glucose'', 90), (''Cholesterol'', 180), (''HDL'', 50), (''LDL'', 100),
      (''Triglycerides'', 120)]"

definition features_of :: "(string \<times> rat) list \<Rightarrow> rat list" where
  "features_of report_data =
     map (\<lambda>param. case map_of report_data param of
                     Some v \<Rightarrow> v
                   | None \<Rightarrow> (case map_of default_values param of Some d \<Rightarrow> d | None \<Rightarrow> 0))
         parameters"

definition index :: "'a list \<Rightarrow> nat \<Rightarrow> error + 'a" where
  "index xs i = (if i < length xs then Inr (xs ! i) else Inl IndexError)"

definition predict_risk ::
  "('s \<Rightarrow> rat list list \<Rightarrow> error + rat list list) \<Rightarrow>
   ('m \<Rightarrow> rat list list \<Rightarrow> error + rat list list) \<Rightarrow>
   ('m, 's) predictor \<Rightarrow> (string \<times> rat) list \<Rightarrow> error + rat" where
  "predict_risk transform predict_proba self report_data =
     (if \<not> is_trained self \<or> model self = None then Inr 50
      else (case model self of
              None \<Rightarrow> Inr 50
            | Some m \<Rightarrow>
                (case transform (scaler self) [features_of report_data] of
                   Inl e \<Rightarrow> Inl e
                 | Inr features_scaled \<Rightarrow>
                     (case predict_proba m features_scaled of
                        Inl e \<Rightarrow> Inl e
                      | Inr proba \<Rightarrow>
                          (case index proba 0 of
                             Inl e \<Rightarrow> Inl e
                           | Inr row \<Rightarrow>
                               (case index row 1 of
                                  Inl e \<Rightarrow> Inl e
                                | Inr risk_probability \<Rightarrow> Inr (risk_probability * 100)))))))"

definition calculate_ml_risk_score ::
  "('s \<Rightarrow> rat list list \<Rightarrow> error + rat list list) \<Rightarrow>
   ('m \<Rightarrow> rat list list \<Rightarrow> error + rat list list) \<Rightarrow>
   ('m, 's) predictor \<Rightarrow> (string \<times> rat) list \<Rightarrow> rat" where
  "calculate_ml_risk_score transform predict_proba health_predictor extracted_data =
     (case predict_risk transform predict_proba health_predictor extracted_data of
        Inr risk_score \<Rightarrow> risk_score
      | Inl e \<Rightarrow> 50)"

subsection \<open>Training\<close>

text \<open>
  \<^verbatim>\<open>prepare_data\<close> ignores its argument. It seeds the random generator with 42 and draws
  nine columns of \<^verbatim>\<open>n_samples = 1000\<close> values, one call of \<^verbatim>\<open>np.random.normal\<close> per
  column, in the order of the dictionary \<^verbatim>\<open>data\<close>. The generator is a parameter of the
  model: \<open>seed\<close> gives its state after seeding, \<open>normal g loc scale n\<close> the array drawn in
  state \<open>g\<close> and the state after the draw. A one-dimensional array is a list.
\<close>

record synthetic_data =
  hemoglobin :: "rat list"
  wbc :: "rat list"
  rbc :: "rat list"
  platelets :: "rat list"
  glucose :: "rat list"
  cholesterol :: "rat list"
  hdl :: "rat list"
  ldl :: "rat list"
  triglycerides :: "rat list"

definition synthetic_data ::
  "(nat \<Rightarrow> 'g) \<Rightarrow> ('g \<Rightarrow> rat \<Rightarrow> rat \<Rightarrow> nat \<Rightarrow> rat list \<times> 'g) \<Rightarrow> synthetic_data" where
  "synthetic_data seed normal =
     (let g0 = seed 42;
          n_samples = 1000;
          (c1, g1) = normal g0 14 2 n_samples;
          (c2, g2) = normal g1 (15 / 2) 2 n_samples;
          (c3, g3) = normal g2 (47 / 10) (1 / 2) n_samples;
          (c4, g4) = normal g3 300 100 n_samples;
          (c5, g5) = normal g4 90 20 n_samples;
          (c6, g6) = normal g5 180 50 n_samples;
          (c7, g7) = normal g6 50 15 n_samples;
          (c8, g8) = normal g7 100 40 n_samples;
          (c9, g9) = normal g8 120 60 n_samples
      in \<lparr>hemoglobin = c1, wbc = c2, rbc = c3, platelets = c4, glucose = c5,
          cholesterol = c6, hdl = c7, ldl = c8, triglycerides = c9\<rparr>)"

text \<open>Comparison of an array with a number, and \<^verbatim>\<open>|\<close> on two boolean arrays, both
  element by element (the arrays of \<^verbatim>\<open>data\<close> have the same length).\<close>

definition array_less :: "rat list \<Rightarrow> rat \<Rightarrow> bool list" where
  "array_less xs c = map (\<lambda>v. v < c) xs"

definition array_greater :: "rat list \<Rightarrow> rat \<Rightarrow> bool list" where
  "array_greater xs c = map (\<lambda>v. v > c) xs"

definition array_or :: "bool list \<Rightarrow> bool list \<Rightarrow> bool list" where
  "array_or xs ys = map2 (\<or>) xs ys"

definition risk_factors :: "synthetic_data \<Rightarrow> bool list" where
  "risk_factors data =
     array_or (array_or (array_or (array_or (array_or
       (array_less (hemoglobin data) 12) (array_greater (hemoglobin data) 16))
       (array_less (wbc data) 4)) (array_greater (wbc data) 11))
       (array_greater (glucose data) 100))
       (array_greater (cholesterol data) 200)"

text \<open>\<^verbatim>\<open>risk_factors.sum()\<close>: the number of \<^verbatim>\<open>True\<close> entries of a boolean array.\<close>

definition sum_bool :: "bool list \<Rightarrow> nat" where
  "sum_bool bs = length (filter (\<lambda>b. b) bs)"

text \<open>
  What \<^verbatim>\<open>y\<close> can be: \<^verbatim>\<open>(risk_factors.sum() > 2).astype(int)\<close> is a single number (a
  zero-dimensional value), while the functions that consume \<^verbatim>\<open>y\<close> in \<^verbatim>\<open>train_model\<close>
  take an array with one label per sample.
\<close>

datatype labels = Scalar int | PerSample "int list"

text \<open>\<^verbatim>\<open>np.column_stack\<close> of one-dimensional arrays: the matrix with these columns, as
  the list of its rows.\<close>

definition column_stack :: "rat list list \<Rightarrow> rat list list" where
  "column_stack columns = transpose columns"

definition prepare_data ::
  "(nat \<Rightarrow> 'g) \<Rightarrow> ('g \<Rightarrow> rat \<Rightarrow> rat \<Rightarrow> nat \<Rightarrow> rat list \<times> 'g) \<Rightarrow> rat list list \<times> labels" where
  "prepare_data seed normal =
     (let data = synthetic_data seed normal;
          y = Scalar (if sum_bool (risk_factors data) > 2 then 1 else 0);
          X = column_stack [hemoglobin data, wbc data, rbc data, platelets data,
                            glucose data, cholesterol data, hdl data, ldl data,
                            triglycerides data]
      in (X, y))"

text \<open>
  \<^verbatim>\<open>train_model\<close>. The scikit-learn calls are parameters that may raise;
  \<^verbatim>\<open>scaler.transform\<close> is the parameter \<open>transform\<close> of \<^const>\<open>predict_risk\<close>. The
  result pairs the predictor as the call leaves it with the accuracy or the exception.
\<close>

record ('m, 's) training_library =
  train_test_split ::
    "rat list list \<Rightarrow> labels \<Rightarrow> error + rat list list \<times> rat list list \<times> labels \<times> labels"
  fit_transform :: "'s \<Rightarrow> rat list list \<Rightarrow> error + 's \<times> rat list list"
  LogisticRegression :: 'm
  fit :: "'m \<Rightarrow> rat list list \<Rightarrow> labels \<Rightarrow> error + 'm"
  predict :: "'m \<Rightarrow> rat list list \<Rightarrow> error + labels"
  accuracy_score :: "labels \<Rightarrow> labels \<Rightarrow> error + rat"

definition train_model ::
  "('m, 's) training_library \<Rightarrow> ('s \<Rightarrow> rat list list \<Rightarrow> error + rat list list) \<Rightarrow>
   (nat \<Rightarrow> 'g) \<Rightarrow> ('g \<Rightarrow> rat \<Rightarrow> rat \<Rightarrow> nat \<Rightarrow> rat list \<times> 'g) \<Rightarrow>
   ('m, 's) predictor \<Rightarrow> ('m, 's) predictor \<times> (error + rat)" where
  "train_model lib transform seed normal self =
     (case prepare_data seed normal of (X, y) \<Rightarrow>
      (case train_test_split lib X y of
         Inl e \<Rightarrow> (self, Inl e)
       | Inr (X_train, X_test, y_train, y_test) \<Rightarrow>
      (case fit_transform lib (scaler self) X_train of
         Inl e \<Rightarrow> (self, Inl e)
       | Inr (fitted_scaler, X_train_scaled) \<Rightarrow>
      (let self1 = self\<lparr>scaler := fitted_scaler\<rparr> in
      (case transform fitted_scaler X_test of
         Inl e \<Rightarrow> (self1, Inl e)
       | Inr X_test_scaled \<Rightarrow>
      (let self2 = self1\<lparr>model := Some (LogisticRegression lib)\<rparr> in
      (case fit lib (LogisticRegression lib) X_train_scaled y_train of
         Inl e \<Rightarrow> (self2, Inl e)
       | Inr fitted_model \<Rightarrow>
      (let self3 = self2\<lparr>model := Some fitted_model\<rparr> in
      (case predict lib fitted_model X_test_scaled of
         Inl e \<Rightarrow> (self3, Inl e)
       | Inr y_pred \<Rightarrow>
      (case accuracy_score lib y_test y_pred of
         Inl e \<Rightarrow> (self3, Inl e)
       | Inr accuracy \<Rightarrow> (self3\<lparr>is_trained := True\<rparr>, Inr accuracy)))))))))))"

text \<open>
  The module creates the predictor (\<^verbatim>\<open>__init__\<close>: no model, a fresh scaler, not trained)
  and trains it inside \<^verbatim>\<open>try\<close>/\<^verbatim>\<open>except Exception\<close>, which prints and drops an
  exception. \<open>health_predictor_after_import\<close> is the predictor the pipeline then uses.
\<close>

definition init_predictor :: "'s \<Rightarrow> ('m, 's) predictor" where
  "init_predictor fresh_scaler = \<lparr>model = None, scaler = fresh_scaler, is_trained = False\<rparr>"

definition health_predictor_after_import ::
  "('m, 's) training_library \<Rightarrow> ('s \<Rightarrow> rat list list \<Rightarrow> error + rat list list) \<Rightarrow>
   (nat \<Rightarrow> 'g) \<Rightarrow> ('g \<Rightarrow> rat \<Rightarrow> rat \<Rightarrow> nat \<Rightarrow> rat list \<times> 'g) \<Rightarrow> 's \<Rightarrow> ('m, 's) predictor" where
  "health_predictor_after_import lib transform seed normal fresh_scaler =
     fst (train_model lib transform seed normal (init_predictor fresh_scaler))"

section \<open>The pipeline\<close>

text \<open>
  The three extraction strategies call the OCR, PDF and CSV libraries on the file at
  \<open>file_path\<close>; they are parameters of the model, returning the text or the message of
  the exception raised. The classifier's two library calls and the process-wide
  predictor complete the environment.
\<close>

record ('m, 's) environment =
  extract_text_from_image :: "string \<Rightarrow> string + string"
  extract_text_from_pdf :: "string \<Rightarrow> string + string"
  extract_text_from_csv :: "string \<Rightarrow> string + string"
  transform :: "'s \<Rightarrow> rat list list \<Rightarrow> error + rat list list"
  predict_proba :: "'m \<Rightarrow> rat list list \<Rightarrow> error + rat list list"
  health_predictor :: "('m, 's) predictor"

definition extraction :: "string + string \<Rightarrow> error + string" where
  "extraction r = (case r of Inl msg \<Rightarrow> Inl (ExtractionFailed msg) | Inr text \<Rightarrow> Inr text)"

text \<open>Everything \<^verbatim>\<open>process_report_file\<close> does once the text is extracted.\<close>

definition analyse ::
  "('m, 's) environment \<Rightarrow> string \<Rightarrow> error + classified list \<times> insight list \<times> rat" where
  "analyse env text =
     (let extracted_data = parse_medical_data text;
          processed_data = classify_data extracted_data
      in case generate_insights processed_data of
           Inl e \<Rightarrow> Inl e
         | Inr insights \<Rightarrow>
             (let risk_score = calculate_ml_risk_score (transform env) (predict_proba env)
                                 (health_predictor env) extracted_data
              in Inr (processed_data, insights, risk_score)))"

definition process_report_file ::
  "('m, 's) environment \<Rightarrow> string \<Rightarrow> string \<Rightarrow>
   error + classified list \<times> insight list \<times> rat" where
  "process_report_file env file_path file_type =
     (case (if prefix ''image'' file_type then extraction (extract_text_from_image env file_path)
            else if file_type = ''application/pdf''
                 then extraction (extract_text_from_pdf env file_path)
            else if file_type = ''text/csv''
                 then extraction (extract_text_from_csv env file_path)
            else Inl (UnsupportedFileType file_type)) of
        Inl e \<Rightarrow> Inl e
      | Inr text \<Rightarrow> analyse env text)"

section \<open>Trend aggregator\<close>

text \<open>
  Of a persisted report only the two fields that \<^verbatim>\<open>generate_trends\<close> reads are modelled.
  The timestamp type is abstract; \<^verbatim>\<open>isoformat\<close> is a parameter.
\<close>

record 't report =
  processed_data :: "classified list option"
  created_at :: 't

record trend_entry =
  entry_date :: string
  entry_value :: rat
  entry_classification :: string

type_synonym trends = "(string \<times> trend_entry list) list"

text \<open>The loop over the entries of one report.\<close>

fun add_entries :: "string \<Rightarrow> classified list \<Rightarrow> trends \<Rightarrow> trends" where
  "add_entries date [] trends = trends"
| "add_entries date (d # rest) trends =
     (let p = parameter d;
          trends1 = (if p \<notin> set (map fst trends) then AList.update p [] trends else trends);
          series = (case map_of trends1 p of None \<Rightarrow> [] | Some es \<Rightarrow> es);
          trends2 = AList.update p
                      (series @ [\<lparr>entry_date = date, entry_value = val d,
                                  entry_classification = classification d\<rparr>]) trends1
      in add_entries date rest trends2)"

text \<open>The loop over the reports; a report whose data is \<^verbatim>\<open>None\<close> or empty is skipped.\<close>

fun collect_trends :: "('t \<Rightarrow> string) \<Rightarrow> 't report list \<Rightarrow> trends \<Rightarrow> trends" where
  "collect_trends isoformat [] trends = trends"
| "collect_trends isoformat (r # reports) trends =
     (case processed_data r of
        None \<Rightarrow> collect_trends isoformat reports trends
      | Some ds \<Rightarrow>
          (if ds = [] then collect_trends isoformat reports trends
           else collect_trends isoformat reports
                  (add_entries (isoformat (created_at r)) ds trends)))"

definition generate_trends :: "('t \<Rightarrow> string) \<Rightarrow> 't report list \<Rightarrow> trends" where
  "generate_trends isoformat reports = collect_trends isoformat reports []"

section \<open>The upload handler\<close>

text \<open>
  The handler's effect on the file system, a set of paths. The database calls and the
  pipeline are parameters that return or raise. \<^verbatim>\<open>os.remove\<close> raises when the path does
  not exist. The result pairs the file system the handler leaves behind with what it
  returns or raises.
\<close>

definition os_remove :: "string \<Rightarrow> string set \<Rightarrow> error + string set" where
  "os_remove path fs = (if path \<in> fs then Inr (fs - {path}) else Inl (FileNotFoundError path))"

definition upload_report ::
  "(string \<Rightarrow> string \<Rightarrow> error + 'r) \<Rightarrow> (string \<Rightarrow> string \<Rightarrow> error + 'p) \<Rightarrow>
   ('r \<Rightarrow> 'p \<Rightarrow> error + 'u) \<Rightarrow> string set \<Rightarrow> string \<Rightarrow> string \<Rightarrow>
   string set \<times> (error + 'u)" where
  "upload_report create_report process update_report_data fs filename content_type =
     (let file_location = ''temp_'' @ filename;
          fs1 = insert file_location fs
      in case create_report filename content_type of
           Inl e \<Rightarrow> (fs1, Inl e)
         | Inr db_report \<Rightarrow>
             (let attempt =
                    (case process file_location content_type of
                       Inl e \<Rightarrow> (fs1, Inl e)
                     | Inr result \<Rightarrow>
                         (case update_report_data db_report result of
                            Inl e \<Rightarrow> (fs1, Inl e)
                          | Inr updated_report \<Rightarrow>
                              (case os_remove file_location fs1 of
                                 Inl e \<Rightarrow> (fs1, Inl e)
                               | Inr fs2 \<Rightarrow> (fs2, Inr updated_report))))
              in case attempt of
                   (fs2, Inr updated_report) \<Rightarrow> (fs2, Inr updated_report)
                 | (fs2, Inl e) \<Rightarrow>
                     (case os_remove file_location fs2 of
                        Inl e' \<Rightarrow> (fs2, Inl e')
                      | Inr fs3 \<Rightarrow> (fs3, Inl (HTTPException 500 e)))))"

section \<open>Notions used to state the insight property\<close>



section \<open>Notions used to state the trend property\<close>

text \<open>The entry that a classified parameter contributes to its series.\<close>

definition entry_of :: "string \<Rightarrow> classified \<Rightarrow> trend_entry" where
  "entry_of date d =
     \<lparr>entry_date = date, entry_value = val d, entry_classification = classification d\<rparr>"

text \<open>The entries that the data of one report contribute to the series of \<open>p\<close>, and the
  entries contributed by a sequence of reports.\<close>

definition series_of :: "string \<Rightarrow> string \<Rightarrow> classified list \<Rightarrow> trend_entry list" where
  "series_of date p ds = map (entry_of date) (filter (\<lambda>d. parameter d = p) ds)"

definition all_series :: "('t \<Rightarrow> string) \<Rightarrow> string \<Rightarrow> 't report list \<Rightarrow> trend_entry list" where
  "all_series isoformat p reports =
     concat (map (\<lambda>r. case processed_data r of
                         None \<Rightarrow> []
                       | Some ds \<Rightarrow> series_of (isoformat (created_at r)) p ds) reports)"

text \<open>The entry of the first item for \<open>p\<close> in a report, if the report has one.\<close>

definition report_entry :: "('t \<Rightarrow> string) \<Rightarrow> string \<Rightarrow> 't report \<Rightarrow> trend_entry option" where
  "report_entry isoformat p r =
     (case processed_data r of
        None \<Rightarrow> None
      | Some ds \<Rightarrow> map_option (entry_of (isoformat (created_at r)))
                     (find (\<lambda>d. parameter d = p) ds))"

text \<open>The series of \<open>p\<close> in a dictionary of trends, empty when \<open>p\<close> is not a key.\<close>

definition series_so_far :: "trends \<Rightarrow> string \<Rightarrow> trend_entry list" where
  "series_so_far trends p = (case map_of trends p of None \<Rightarrow> [] | Some es \<Rightarrow> es)"

section \<open>Example inputs\<close>

definition entry :: "string \<Rightarrow> rat \<Rightarrow> string \<Rightarrow> classified" where
  "entry p v c =
     \<lparr>parameter = p, val = v, unit = ''mg/dL'', range_min = 0, range_max = 1,
      classification = c\<rparr>"

definition four_parameters :: "classified list" where
  "four_parameters =
     [entry ''Glucose'' 250 ''High'', entry ''HDL'' 50 ''Normal'',
      entry ''LDL'' 100 ''Normal'', entry ''WBC'' 7 ''Normal'']"

definition extracted_example :: "(string \<times> rat) list" where
  "extracted_example = [(''Glucose'', 70), (''Hemoglobin'', 11), (''HDL'', 61), (''Ferritin'', 1)]"

definition glucose_at_min :: classified where
  "glucose_at_min =
     \<lparr>parameter = ''Glucose'', val = 70, unit = ''mg/dL'', range_min = 70,
      range_max = 100, classification = ''Normal''\<rparr>"

definition cholesterol_low :: classified where
  "cholesterol_low =
     \<lparr>parameter = ''Cholesterol'', val = - 1, unit = ''mg/dL'', range_min = 0,
      range_max = 200, classification = ''Low''\<rparr>"

definition trained_predictor :: "(unit, unit) predictor" where
  "trained_predictor = \<lparr>model = Some (), scaler = (), is_trained = True\<rparr>"

definition untrained_predictor :: "(unit, unit) predictor" where
  "untrained_predictor = \<lparr>model = None, scaler = (), is_trained = False\<rparr>"

definition scaler_ok :: "unit \<Rightarrow> rat list list \<Rightarrow> error + rat list list" where
  "scaler_ok s x = Inr x"

definition scaler_fails :: "unit \<Rightarrow> rat list list \<Rightarrow> error + rat list list" where
  "scaler_fails s x = Inl (ModelFailure ''X has 9 features, but StandardScaler is expecting 8'')"

definition proba_ok :: "unit \<Rightarrow> rat list list \<Rightarrow> error + rat list list" where
  "proba_ok m x = Inr [[1 / 4, 3 / 4]]"

definition proba_fails :: "unit \<Rightarrow> rat list list \<Rightarrow> error + rat list list" where
  "proba_fails m x = Inl (ModelFailure ''Input contains NaN'')"

definition example_env :: "(unit, unit) environment" where
  "example_env =
     \<lparr>extract_text_from_image = (\<lambda>path. Inr ''Glucose: 250 mg/dL''),
      extract_text_from_pdf = (\<lambda>path. Inl ''cannot open broken document''),
      extract_text_from_csv = (\<lambda>path. Inr ''0  Hemoglobin  13.5''),
      transform = scaler_ok, predict_proba = proba_ok,
      health_predictor = untrained_predictor\<rparr>"

definition glucose_90 :: classified where
  "glucose_90 = \<lparr>parameter = ''Glucose'', val = 90, unit = ''mg/dL'', range_min = 70,
      range_max = 100, classification = ''Normal''\<rparr>"

definition glucose_300 :: classified where
  "glucose_300 = \<lparr>parameter = ''Glucose'', val = 300, unit = ''mg/dL'', range_min = 70,
      range_max = 100, classification = ''High''\<rparr>"

definition hemoglobin_13 :: classified where
  "hemoglobin_13 = \<lparr>parameter = ''Hemoglobin'', val = 13, unit = ''g/dL'', range_min = 12,
      range_max = 16, classification = ''Normal''\<rparr>"

definition history :: "string report list" where
  "history =
     [\<lparr>processed_data = Some [glucose_90, hemoglobin_13], created_at = ''2024-01-05T10:00:00''\<rparr>,
      \<lparr>processed_data = None, created_at = ''2024-02-05T10:00:00''\<rparr>,
      \<lparr>processed_data = Some [glucose_300], created_at = ''2024-03-05T10:00:00''\<rparr>,
      \<lparr>processed_data = Some [glucose_300], created_at = ''2024-03-05T10:00:00''\<rparr>]"

definition three_parameters_text :: string where
  "three_parameters_text =
     ''Glucose 250'' @ [CHR 0x0A] @ ''Hemoglobin 13'' @ [CHR 0x0A] @ ''HDL 50''"

definition one_of_three :: "classified list" where
  "one_of_three = classify_data (parse_medical_data three_parameters_text)"


definition two_glucose_lines :: string where
  "two_glucose_lines = ''Glucose 90'' @ [CHR 0x0A] @ ''...'' @ [CHR 0x0A] @ ''Glucose 300''"

definition three_assignments :: string where
  "three_assignments =
     ''Glucose 90'' @ [CHR 0x0A] @ ''Glucose 300'' @ [CHR 0x0A] @ ''Hemoglobin 13.5''"

definition cholesterol_zero :: classified where
  "cholesterol_zero = \<lparr>parameter = ''Cholesterol'', val = 0, unit = ''mg/dL'', range_min = 0,
      range_max = 200, classification = ''Normal''\<rparr>"

section \<open>Rule-based risk score\<close>

subsection \<open>Accuracy of the rounding\<close>

lemma floor_log2_bounds:
  assumes "0 < q"
  shows "2 powi floor_log2 q \<le> q \<and> q < 2 powi (floor_log2 q + 1)"
proof -
  obtain a b where ab: "quotient_of q = (a, b)" by (cases "quotient_of q")
  then have b: "0 < b" and q: "q = of_int a / of_int b"
    by (auto dest: quotient_of_denom_pos quotient_of_div)
  with assms have a: "0 < a" by (simp add: zero_less_divide_iff)
  define la lb where "la = bitlen a" and "lb = bitlen b"
  from a b have la: "1 \<le> la" and lb: "1 \<le> lb"
    by (auto simp: la_def lb_def bitlen_alt_def)
  from bitlen_bounds [OF a] have "2 ^ nat (la - 1) \<le> a" "a < 2 ^ nat la"
    by (simp_all add: la_def)
  then have "(of_int (2 ^ nat (la - 1)) :: rat) \<le> of_int a"
    "(of_int a :: rat) < of_int (2 ^ nat la)"
    by (simp_all only: of_int_le_iff of_int_less_iff)
  with la have a1: "(2::rat) powi (la - 1) \<le> of_int a" and a2: "of_int a < (2::rat) powi la"
    by (simp_all add: power_int_def)
  from bitlen_bounds [OF b] have "2 ^ nat (lb - 1) \<le> b" "b < 2 ^ nat lb"
    by (simp_all add: lb_def)
  then have "(of_int (2 ^ nat (lb - 1)) :: rat) \<le> of_int b"
    "(of_int b :: rat) < of_int (2 ^ nat lb)"
    by (simp_all only: of_int_le_iff of_int_less_iff)
  with lb have b1: "(2::rat) powi (lb - 1) \<le> of_int b" and b2: "of_int b < (2::rat) powi lb"
    by (simp_all add: power_int_def)
  have bpos: "(0::rat) < of_int b" using b by simp
  have upper: "q < 2 powi (la - lb + 1)"
  proof -
    have "of_int a < (2::rat) powi la" by (rule a2)
    also have "\<dots> = 2 powi (la - lb + 1) * 2 powi (lb - 1)"
      by (simp add: power_int_add [symmetric])
    also have "\<dots> \<le> 2 powi (la - lb + 1) * of_int b"
      using b1 by (simp add: mult_left_mono)
    finally show ?thesis using bpos by (simp add: q pos_divide_less_eq)
  qed
  have lower: "2 powi (la - lb - 1) < q"
  proof -
    have "(2::rat) powi (la - lb - 1) * of_int b < 2 powi (la - lb - 1) * 2 powi lb"
      using b2 by (simp add: mult_strict_left_mono)
    also have "\<dots> = 2 powi (la - 1)"
      by (simp add: power_int_add [symmetric])
    also have "\<dots> \<le> of_int a" by (rule a1)
    finally show ?thesis using bpos by (simp add: q pos_less_divide_eq)
  qed
  show ?thesis
  proof (cases "2 powi (la - lb) \<le> q")
    case True
    then have "floor_log2 q = la - lb"
      by (simp add: floor_log2_def ab la_def lb_def)
    with True upper show ?thesis by simp
  next
    case False
    then have "floor_log2 q = la - lb - 1"
      by (simp add: floor_log2_def ab la_def lb_def)
    with False lower show ?thesis by simp
  qed
qed

lemma round_half_even_error: "\<bar>of_int (round_half_even q) - q\<bar> \<le> 1 / 2"
proof -
  have "of_int \<lfloor>q\<rfloor> \<le> q" "q < of_int \<lfloor>q\<rfloor> + 1" by linarith+
  then show ?thesis
    by (auto simp: round_half_even_def Let_def abs_le_iff)
qed

lemma round_double_error:
  assumes "0 \<le> q"
  shows "\<bar>round_double q - q\<bar> \<le> q / 2 ^ 53"
proof (cases "q = 0")
  case True
  then show ?thesis by (simp add: round_double_def)
next
  case False
  with assms have pos: "0 < q" by simp
  define e where "e = floor_log2 q - 52"
  define s where "s = q / 2 powi e"
  define m where "m = round_half_even s"
  from pos have rd: "round_double q = of_int m * 2 powi e"
    by (simp add: round_double_def e_def s_def m_def Let_def)
  have qs: "q = s * 2 powi e" by (simp add: s_def)
  have "\<bar>round_double q - q\<bar> = \<bar>of_int m - s\<bar> * 2 powi e"
    unfolding rd by (subst qs) (simp add: abs_mult left_diff_distrib [symmetric])
  also have "\<dots> \<le> 1 / 2 * 2 powi e"
    using round_half_even_error [of s] by (simp add: m_def mult_right_mono)
  also have "\<dots> = 2 powi (e + 52) / 2 ^ 53"
    by (simp add: power_int_add)
  also have "\<dots> \<le> q / 2 ^ 53"
    using floor_log2_bounds [OF pos] by (simp add: e_def divide_right_mono)
  finally show ?thesis .
qed

lemma float_percentage_error:
  assumes "0 \<le> x"
  shows "\<bar>float_mul (round_double x) 100 - 100 * x\<bar> \<le> 100 * x / 2 ^ 51"
proof -
  define u :: rat where "u = 1 / 2 ^ 53"
  define r where "r = round_double x"
  have u: "0 \<le> u" "u \<le> 1" by (simp_all add: u_def)
  from round_double_error [OF assms] have e1: "\<bar>r - x\<bar> \<le> x * u"
    by (simp add: r_def u_def)
  with assms u have r0: "0 \<le> r" and r1: "r \<le> x * (1 + u)"
  proof -
    from e1 have "x - x * u \<le> r" "r \<le> x + x * u" by (simp_all add: abs_le_iff)
    moreover from assms u have "x * u \<le> x * 1" by (intro mult_left_mono) simp_all
    ultimately show "0 \<le> r" "r \<le> x * (1 + u)" by (simp_all add: algebra_simps)
  qed
  from r0 have "0 \<le> r * 100" by simp
  from round_double_error [OF this] have e2: "\<bar>float_mul r 100 - r * 100\<bar> \<le> r * 100 * u"
    by (simp add: float_mul_def u_def)
  have "\<bar>float_mul r 100 - 100 * x\<bar> = \<bar>(float_mul r 100 - r * 100) + 100 * (r - x)\<bar>"
    by (simp add: algebra_simps)
  also have "\<dots> \<le> \<bar>float_mul r 100 - r * 100\<bar> + \<bar>100 * (r - x)\<bar>"
    by (rule abs_triangle_ineq)
  also have "\<dots> = \<bar>float_mul r 100 - r * 100\<bar> + 100 * \<bar>r - x\<bar>"
    by (simp only: abs_mult abs_numeral)
  also have "\<dots> \<le> r * 100 * u + 100 * (x * u)"
    using e1 e2 by simp
  also have "\<dots> \<le> x * (1 + u) * 100 * u + 100 * (x * u)"
    using r1 u by (simp add: mult_right_mono)
  also have "\<dots> = 100 * x * (u * (2 + u))"
    by (simp add: algebra_simps)
  also have "\<dots> \<le> 100 * x * (u * 4)"
    using assms u by (intro mult_left_mono) simp_all
  also have "\<dots> = 100 * x / 2 ^ 51"
    by (simp add: u_def)
  finally show ?thesis by (simp add: r_def)
qed

subsection \<open>The score\<close>

lemma count_abnormal_filter:
  "count_abnormal n pd =
     n + length (filter (\<lambda>d. classification d = ''Low'' \<or> classification d = ''High'') pd)"
  by (induction pd arbitrary: n) auto

text \<open>
  Claim C6, as stated: the score of \<open>N\<close> parameters of which \<open>K\<close> are abnormal is
  \<open>100 * K / N\<close>. For the three parameters extracted from a text with one abnormal value
  the score is 33.33333333333333 (the first fraction below), which is neither the number
  \<open>100 / 3\<close> nor the double nearest to it, 33.333333333333336, that \<^verbatim>\<open>100 * 1 / 3\<close> gives.
\<close>

theorem calculate_risk_score_formula_counterexample:
  "length one_of_three = 3 \<and>
   length (filter (\<lambda>d. classification d = ''Low'' \<or> classification d = ''High'') one_of_three) = 1 \<and>
   calculate_risk_score one_of_three = Inr (2345624805922133 / 70368744177664) \<and>
   calculate_risk_score one_of_three \<noteq> Inr (100 * 1 / 3) \<and>
   calculate_risk_score one_of_three \<noteq> Inr (round_double (100 * 1 / 3))"
proof -
  have l: "map classification one_of_three = [''High'', ''Normal'', ''Normal'']"
    by code_simp
  then have n: "length one_of_three = 3"
    by (metis length_map length_Cons list.size(3) numeral_3_eq_3)
  have r: "calculate_risk_score one_of_three = Inr (2345624805922133 / 70368744177664)"
    by code_simp
  have d: "round_double (100 * 1 / 3) = 4691249611844267 / 140737488355328"
    by code_simp
  have k: "length (filter (\<lambda>d. classification d = ''Low'' \<or> classification d = ''High'') one_of_three) = 1"
    by code_simp
  from n k r d show ?thesis by simp
qed

text \<open>
  Claim C6, amended. For a classified sequence of \<open>N > 0\<close> parameters of which \<open>K\<close> are
  classified Low or High, \<^const>\<open>calculate_risk_score\<close> returns the double-precision
  product \<^verbatim>\<open>(K / N) * 100\<close>: the quotient rounded to a double, multiplied by 100 and
  rounded again. It differs from \<open>100 * K / N\<close> by a relative error of at most \<open>2^-51\<close>. For
  the empty sequence it returns 0. In both cases it returns a value: the division is
  never reached with a zero divisor.
\<close>

theorem calculate_risk_score_rounded:
  "calculate_risk_score [] = Inr 0 \<and>
   (pd \<noteq> [] \<longrightarrow>
      calculate_risk_score pd =
        Inr (float_mul
               (round_double
                  (of_nat (length (filter (\<lambda>d. classification d = ''Low'' \<or>
                                               classification d = ''High'') pd))
                   / of_nat (length pd))) 100) \<and>
      \<bar>float_mul
         (round_double
            (of_nat (length (filter (\<lambda>d. classification d = ''Low'' \<or>
                                         classification d = ''High'') pd))
             / of_nat (length pd))) 100
       - 100 * of_nat (length (filter (\<lambda>d. classification d = ''Low'' \<or>
                                            classification d = ''High'') pd))
         / of_nat (length pd)\<bar>
      \<le> 100 * of_nat (length (filter (\<lambda>d. classification d = ''Low'' \<or>
                                            classification d = ''High'') pd))
         / of_nat (length pd) / 2 ^ 51)"
proof -
  define x :: rat where
    "x = of_nat (length (filter (\<lambda>d. classification d = ''Low'' \<or>
                                      classification d = ''High'') pd)) / of_nat (length pd)"
  have "0 \<le> x" by (simp add: x_def)
  from float_percentage_error [OF this]
  have "\<bar>float_mul (round_double x) 100 - 100 * x\<bar> \<le> 100 * x / 2 ^ 51" .
  then show ?thesis
    by (simp add: calculate_risk_score_def truediv_def count_abnormal_filter x_def)
qed

theorem calculate_risk_score_rounded_witness:
  "four_parameters \<noteq> [] \<and> calculate_risk_score four_parameters = Inr 25"
proof -
  have ne: "four_parameters \<noteq> []"
    by (simp add: four_parameters_def)
  have k: "length (filter (\<lambda>d. classification d = ''Low'' \<or> classification d = ''High'')
             four_parameters) = 1"
    by (simp add: four_parameters_def entry_def)
  have n: "length four_parameters = 4"
    by (simp add: four_parameters_def)
  have v: "float_mul (round_double (1 / 4)) 100 = 25"
    by code_simp
  from calculate_risk_score_rounded [of four_parameters] ne
  have "calculate_risk_score four_parameters =
        Inr (float_mul
               (round_double
                  (of_nat (length (filter (\<lambda>d. classification d = ''Low'' \<or>
                                               classification d = ''High'') four_parameters))
                   / of_nat (length four_parameters))) 100)"
    by blast
  with ne k n v show ?thesis by simp
qed

section \<open>Classifier verdicts\<close>

lemma NORMAL_RANGES_ordered:
  "map_of NORMAL_RANGES p = Some r \<Longrightarrow> rmin r \<le> rmax r"
  by (auto simp: NORMAL_RANGES_def split: if_splits)

lemma classify_data_keys:
  "map (\<lambda>e. (parameter e, val e)) (classify_data data) =
     filter (\<lambda>pv. map_of NORMAL_RANGES (fst pv) \<noteq> None) data"
  by (induction data) (auto simp: Let_def split: option.splits)

lemma classify_data_entry:
  "e \<in> set (classify_data data) \<Longrightarrow>
   \<exists>r. map_of NORMAL_RANGES (parameter e) = Some r \<and> (parameter e, val e) \<in> set data \<and>
       unit e = runit r \<and> range_min e = rmin r \<and> range_max e = rmax r \<and>
       classification e =
         (if val e < rmin r then ''Low'' else if val e > rmax r then ''High'' else ''Normal'')"
proof (induction data)
  case Nil
  then show ?case by simp
next
  case (Cons pv data)
  obtain p v where pv: "pv = (p, v)" by (cases pv)
  show ?case
  proof (cases "map_of NORMAL_RANGES p")
    case None
    with Cons pv show ?thesis by auto
  next
    case (Some r)
    show ?thesis
    proof (cases "e \<in> set (classify_data data)")
      case True
      with Cons.IH show ?thesis by auto
    next
      case False
      with Cons.prems pv Some
      have "e = \<lparr>parameter = p, val = v, unit = runit r, range_min = rmin r,
                 range_max = rmax r,
                 classification = (if v < rmin r then ''Low''
                                   else if v > rmax r then ''High'' else ''Normal'')\<rparr>"
        by (simp add: Let_def)
      with Some pv show ?thesis by simp
    qed
  qed
qed

text \<open>
  Claim C5. \<^const>\<open>classify_data\<close> produces one entry for each extracted pair whose
  parameter has a reference range, in the order of the pairs; an entry is Low exactly when
  its value is below the range minimum, High exactly when it is above the range maximum,
  and Normal otherwise, so that a value equal to either bound is Normal.
\<close>

theorem classify_data_verdict:
  "map (\<lambda>e. (parameter e, val e)) (classify_data data) =
     filter (\<lambda>pv. map_of NORMAL_RANGES (fst pv) \<noteq> None) data \<and>
   (\<forall>e \<in> set (classify_data data).
      \<exists>r. map_of NORMAL_RANGES (parameter e) = Some r \<and>
          range_min e = rmin r \<and> range_max e = rmax r \<and>
          (classification e = ''Low'' \<longleftrightarrow> val e < rmin r) \<and>
          (classification e = ''High'' \<longleftrightarrow> val e > rmax r) \<and>
          (classification e = ''Normal'' \<longleftrightarrow> rmin r \<le> val e \<and> val e \<le> rmax r) \<and>
          (val e = rmin r \<or> val e = rmax r \<longrightarrow> classification e = ''Normal''))"
proof (intro conjI ballI)
  show "map (\<lambda>e. (parameter e, val e)) (classify_data data) =
     filter (\<lambda>pv. map_of NORMAL_RANGES (fst pv) \<noteq> None) data"
    by (rule classify_data_keys)
next
  fix e assume "e \<in> set (classify_data data)"
  then obtain r where r: "map_of NORMAL_RANGES (parameter e) = Some r"
    "range_min e = rmin r" "range_max e = rmax r"
    "classification e =
       (if val e < rmin r then ''Low'' else if val e > rmax r then ''High'' else ''Normal'')"
    using classify_data_entry by blast
  have "rmin r \<le> rmax r" using r(1) by (rule NORMAL_RANGES_ordered)
  with r show "\<exists>r. map_of NORMAL_RANGES (parameter e) = Some r \<and>
          range_min e = rmin r \<and> range_max e = rmax r \<and>
          (classification e = ''Low'' \<longleftrightarrow> val e < rmin r) \<and>
          (classification e = ''High'' \<longleftrightarrow> val e > rmax r) \<and>
          (classification e = ''Normal'' \<longleftrightarrow> rmin r \<le> val e \<and> val e \<le> rmax r) \<and>
          (val e = rmin r \<or> val e = rmax r \<longrightarrow> classification e = ''Normal'')"
    by (intro exI [of _ r]) auto
qed

theorem classify_data_verdict_witness:
  "glucose_at_min \<in> set (classify_data extracted_example) \<and>
   val glucose_at_min = range_min glucose_at_min \<and>
   classification glucose_at_min = ''Normal'' \<and>
   map (\<lambda>e. (parameter e, val e)) (classify_data extracted_example) =
     [(''Glucose'', 70), (''Hemoglobin'', 11), (''HDL'', 61)]"
proof -
  have mem: "glucose_at_min \<in> set (classify_data extracted_example)"
    by code_simp
  have at_min: "val glucose_at_min = range_min glucose_at_min"
    by (simp add: glucose_at_min_def)
  have known: "filter (\<lambda>pv. map_of NORMAL_RANGES (fst pv) \<noteq> None) extracted_example =
      [(''Glucose'', 70), (''Hemoglobin'', 11), (''HDL'', 61)]"
    by code_simp
  from classify_data_verdict [of extracted_example, THEN conjunct2, THEN bspec, OF mem]
  obtain r :: range_info where "range_min glucose_at_min = rmin r"
    and "val glucose_at_min = rmin r \<or> val glucose_at_min = rmax r
         \<longrightarrow> classification glucose_at_min = ''Normal''"
    by blast
  with at_min have "classification glucose_at_min = ''Normal''" by simp
  with mem at_min known classify_data_verdict [of extracted_example] show ?thesis by simp
qed

section \<open>Model-based risk score\<close>

text \<open>
  Claim C4. \<^const>\<open>predict_risk\<close> returns 50 whenever the predictor is untrained or has no
  model, whatever the report data. \<^const>\<open>calculate_ml_risk_score\<close> returns 50 whenever
  \<^const>\<open>predict_risk\<close> raises, in particular when the scaler or the classifier raises.
  Otherwise the score is the probability of the high-risk class (row 0, column 1 of the
  classifier's output) times 100.
\<close>

theorem predict_risk_fallback:
  "(\<not> is_trained self \<or> model self = None \<longrightarrow>
      predict_risk T P self rd = Inr 50 \<and> calculate_ml_risk_score T P self rd = 50) \<and>
   (\<forall>e. predict_risk T P self rd = Inl e \<longrightarrow> calculate_ml_risk_score T P self rd = 50) \<and>
   (is_trained self \<and> model self = Some m \<longrightarrow>
      (\<forall>e. T (scaler self) [features_of rd] = Inl e \<longrightarrow>
           predict_risk T P self rd = Inl e \<and> calculate_ml_risk_score T P self rd = 50) \<and>
      (\<forall>fs e. T (scaler self) [features_of rd] = Inr fs \<and> P m fs = Inl e \<longrightarrow>
           predict_risk T P self rd = Inl e \<and> calculate_ml_risk_score T P self rd = 50) \<and>
      (\<forall>fs proba row p.
           T (scaler self) [features_of rd] = Inr fs \<and> P m fs = Inr proba \<and>
           index proba 0 = Inr row \<and> index row 1 = Inr p \<longrightarrow>
           predict_risk T P self rd = Inr (p * 100) \<and>
           calculate_ml_risk_score T P self rd = p * 100))"
  by (simp add: predict_risk_def calculate_ml_risk_score_def)

theorem predict_risk_fallback_witness:
  "calculate_ml_risk_score scaler_ok proba_ok untrained_predictor extracted_example = 50 \<and>
   calculate_ml_risk_score scaler_fails proba_ok trained_predictor extracted_example = 50 \<and>
   calculate_ml_risk_score scaler_ok proba_fails trained_predictor extracted_example = 50 \<and>
   calculate_ml_risk_score scaler_ok proba_ok trained_predictor extracted_example = 75"
proof -
  have untrained:
    "calculate_ml_risk_score scaler_ok proba_ok untrained_predictor extracted_example = 50"
    using predict_risk_fallback
      [where self = untrained_predictor and T = scaler_ok and P = proba_ok
         and rd = extracted_example and m = "()"]
    by (simp add: untrained_predictor_def)
  have scaling:
    "calculate_ml_risk_score scaler_fails proba_ok trained_predictor extracted_example = 50"
    using predict_risk_fallback
      [where self = trained_predictor and T = scaler_fails and P = proba_ok
         and rd = extracted_example and m = "()"]
    by (simp add: trained_predictor_def scaler_fails_def)
  have inference:
    "calculate_ml_risk_score scaler_ok proba_fails trained_predictor extracted_example = 50"
    using predict_risk_fallback
      [where self = trained_predictor and T = scaler_ok and P = proba_fails
         and rd = extracted_example and m = "()"]
    by (simp add: trained_predictor_def scaler_ok_def proba_fails_def)
  have trained: "is_trained trained_predictor \<and> model trained_predictor = Some ()"
    by (simp add: trained_predictor_def)
  have calls:
    "scaler_ok (scaler trained_predictor) [features_of extracted_example]
       = Inr [features_of extracted_example] \<and>
     proba_ok () [features_of extracted_example] = Inr [[1 / 4, 3 / 4]] \<and>
     index [[1 / 4, 3 / 4 :: rat]] 0 = Inr [1 / 4, 3 / 4] \<and>
     index [1 / 4, 3 / 4 :: rat] 1 = Inr (3 / 4)"
    by (simp add: scaler_ok_def proba_ok_def index_def)
  from predict_risk_fallback
      [where self = trained_predictor and T = scaler_ok and P = proba_ok
         and rd = extracted_example and m = "()"] trained calls
  have "calculate_ml_risk_score scaler_ok proba_ok trained_predictor extracted_example
          = 3 / 4 * 100"
    by blast
  then have scored:
    "calculate_ml_risk_score scaler_ok proba_ok trained_predictor extracted_example = 75"
    by simp
  from untrained scaling inference scored show ?thesis by simp
qed

section \<open>Errors of the insight engine\<close>

lemma generate_insights_error:
  "generate_insights pd = Inl e \<Longrightarrow> \<exists>k. e = KeyError k"
  by (induction pd arbitrary: e)
     (auto simp: getitem_def split: if_splits sum.splits option.splits)

section \<open>Text extraction strategy\<close>

lemma analyse_error: "analyse env text = Inl e \<Longrightarrow> \<exists>k. e = KeyError k"
  by (auto simp: analyse_def Let_def split: sum.splits dest: generate_insights_error)

lemma extraction_error: "extraction r = Inl e \<Longrightarrow> \<exists>msg. e = ExtractionFailed msg"
  by (auto simp: extraction_def split: sum.splits)

text \<open>
  Claim C8. \<^const>\<open>process_report_file\<close> fails with the unsupported-format error exactly
  when the declared content type neither starts with \<open>image\<close> nor equals
  \<open>application/pdf\<close> nor equals \<open>text/csv\<close>, for every environment and file path; and the
  strategy that runs is fixed by the declared content type alone.
\<close>

theorem process_report_file_unsupported:
  "((\<exists>msg. process_report_file env file_path file_type = Inl (UnsupportedFileType msg)) \<longleftrightarrow>
      \<not> prefix ''image'' file_type \<and> file_type \<noteq> ''application/pdf'' \<and>
      file_type \<noteq> ''text/csv'') \<and>
   (\<not> prefix ''image'' file_type \<and> file_type \<noteq> ''application/pdf'' \<and>
    file_type \<noteq> ''text/csv'' \<longrightarrow>
      process_report_file env file_path file_type = Inl (UnsupportedFileType file_type)) \<and>
   (prefix ''image'' file_type \<longrightarrow>
      process_report_file env file_path file_type =
        (case extraction (extract_text_from_image env file_path) of
           Inl e \<Rightarrow> Inl e | Inr text \<Rightarrow> analyse env text)) \<and>
   (file_type = ''application/pdf'' \<longrightarrow>
      process_report_file env file_path file_type =
        (case extraction (extract_text_from_pdf env file_path) of
           Inl e \<Rightarrow> Inl e | Inr text \<Rightarrow> analyse env text)) \<and>
   (file_type = ''text/csv'' \<longrightarrow>
      process_report_file env file_path file_type =
        (case extraction (extract_text_from_csv env file_path) of
           Inl e \<Rightarrow> Inl e | Inr text \<Rightarrow> analyse env text))"
proof -
  have a: "\<And>r msg. (case extraction r of Inl e \<Rightarrow> Inl e | Inr text \<Rightarrow> analyse env text)
             \<noteq> Inl (UnsupportedFileType msg)"
    by (auto split: sum.splits dest: extraction_error analyse_error)
  show ?thesis
    by (auto simp: process_report_file_def a)
qed

theorem process_report_file_unsupported_witness:
  "process_report_file example_env ''temp_notes.txt'' ''text/plain''
     = Inl (UnsupportedFileType ''text/plain'') \<and>
   process_report_file example_env ''temp_scan.pdf'' ''application/pdf''
     = Inl (ExtractionFailed ''cannot open broken document'')"
proof -
  have unsupported: "process_report_file example_env ''temp_notes.txt'' ''text/plain''
     = Inl (UnsupportedFileType ''text/plain'')"
    using process_report_file_unsupported
      [where env = example_env and file_path = "''temp_notes.txt''"
         and file_type = "''text/plain''"]
    by simp
  have pdf: "process_report_file example_env ''temp_scan.pdf'' ''application/pdf''
     = Inl (ExtractionFailed ''cannot open broken document'')"
    using process_report_file_unsupported
      [where env = example_env and file_path = "''temp_scan.pdf''"
         and file_type = "''application/pdf''"]
    by (simp add: example_env_def extraction_def)
  from unsupported pdf show ?thesis by simp
qed

section \<open>Temporary file of the upload handler\<close>

lemma upload_report_create_failure:
  "create_report filename ct = Inl e \<Longrightarrow>
   upload_report create_report process update_report_data fs filename ct
     = (insert (''temp_'' @ filename) fs, Inl e)"
  by (simp add: upload_report_def)

lemma upload_report_cleanup_after_create:
  "create_report filename ct = Inr r \<Longrightarrow>
   ''temp_'' @ filename
     \<notin> fst (upload_report create_report process update_report_data fs filename ct)"
  by (auto simp: upload_report_def os_remove_def Let_def split: sum.splits prod.splits)

text \<open>
  Claim C3. The claim requires the temporary file to be removed on every exit path,
  the failure of the initial report-row creation included. The handler removes it on
  every path that follows a successful \<^verbatim>\<open>create_report\<close>
  (\<open>upload_report_cleanup_after_create\<close>), but \<^verbatim>\<open>create_report\<close> is called outside the
  \<^verbatim>\<open>try\<close> block: when it raises, the exception propagates and the file stays.
\<close>

theorem upload_report_leaves_file:
  "upload_report (\<lambda>f c. Inl (DatabaseError ''connection lost'') :: error + nat)
      (\<lambda>p c. Inr (0 :: nat)) (\<lambda>r p. Inr (r + p)) {} ''report.pdf'' ''application/pdf''
     = ({''temp_report.pdf''}, Inl (DatabaseError ''connection lost''))"
  by (simp add: upload_report_def)

section \<open>Training label\<close>

text \<open>
  Claim C7. The label is computed once for the whole batch, and it is 1 exactly when more
  than two entries of \<^const>\<open>risk_factors\<close> are true; so far the code does what the claim
  says. The claim also has this one label broadcast to every sample. It is not: whatever
  the generator draws, \<^verbatim>\<open>y\<close> is a single number and never an array of labels.
\<close>

theorem prepare_data_label_scalar:
  "snd (prepare_data seed normal) =
     Scalar (if 2 < sum_bool (risk_factors (synthetic_data seed normal)) then 1 else 0) \<and>
   (\<forall>ys. snd (prepare_data seed normal) \<noteq> PerSample ys)"
  by (simp add: prepare_data_def Let_def)

text \<open>
  \<^verbatim>\<open>train_model\<close> passes that single number to \<^verbatim>\<open>train_test_split\<close>, which takes one label
  per sample. If the library rejects a zero-dimensional \<^verbatim>\<open>y\<close>, training stops there: the
  predictor is left as \<^verbatim>\<open>__init__\<close> made it, and every prediction is the fallback 50.
\<close>

lemma train_model_scalar_rejected:
  assumes "\<forall>X y. \<exists>e. train_test_split lib X (Scalar y) = Inl e"
  shows "health_predictor_after_import lib T seed normal fresh_scaler
           = init_predictor fresh_scaler \<and>
         predict_risk T P
           (health_predictor_after_import lib T seed normal fresh_scaler) report_data
           = Inr 50"
proof -
  obtain X y where xy: "prepare_data seed normal = (X, Scalar y)"
    by (simp add: prepare_data_def Let_def)
  from assms obtain e where "train_test_split lib X (Scalar y) = Inl e" by blast
  with xy have "health_predictor_after_import lib T seed normal fresh_scaler
           = init_predictor fresh_scaler"
    by (simp add: health_predictor_after_import_def train_model_def)
  then show ?thesis
    by (simp add: predict_risk_def init_predictor_def)
qed

section \<open>Repeated parameter names in the parameter extractor\<close>

lemma parse_lines_append:
  "parse_lines data (xs @ ys) = parse_lines (parse_lines data xs) ys"
  by (induction xs arbitrary: data) (auto split: option.splits)

lemma parse_lines_unassigned:
  "\<forall>l \<in> set ls. map_option fst (scan_parameters (map fst NORMAL_RANGES) l) \<noteq> Some p \<Longrightarrow>
   map_of (parse_lines data ls) p = map_of data p"
  by (induction ls arbitrary: data) (auto simp: update_conv' split: option.splits)

text \<open>
  Claim C1, as stated: the value of the first line naming a parameter wins. On the text
  of the claim's own example the extractor returns 300 for Glucose, not 90.
\<close>

theorem parse_medical_data_first_wins_counterexample:
  "map_of (parse_medical_data two_glucose_lines) ''Glucose'' = Some 300 \<and>
   map_of (parse_medical_data two_glucose_lines) ''Glucose'' \<noteq> Some 90"
proof -
  have "parse_medical_data two_glucose_lines = [(''Glucose'', 300)]"
    by code_simp
  then show ?thesis by simp
qed

text \<open>
  Claim C1, amended. A line assigns a parameter when that parameter is the first known
  name occurring in the line and the line holds a numeric token. When a line of the text
  assigns \<open>p\<close> the value \<open>v\<close> and no later line assigns \<open>p\<close>, \<^const>\<open>parse_medical_data\<close>
  returns \<open>v\<close> for \<open>p\<close>: the last assignment wins, every later one overwriting the earlier.
\<close>

theorem parse_medical_data_last_wins:
  assumes "split_lines text = before @ line # after"
    and "scan_parameters (map fst NORMAL_RANGES) line = Some (p, v)"
    and "\<forall>l \<in> set after. map_option fst (scan_parameters (map fst NORMAL_RANGES) l) \<noteq> Some p"
  shows "map_of (parse_medical_data text) p = Some v"
proof -
  have "parse_medical_data text =
        parse_lines (AList.update p v (parse_lines [] before)) after"
    using assms(1,2) by (simp add: parse_medical_data_def parse_lines_append)
  with assms(3) show ?thesis
    by (simp add: parse_lines_unassigned update_conv')
qed

theorem parse_medical_data_last_wins_witness:
  "map_of (parse_medical_data three_assignments) ''Glucose'' = Some 300"
proof -
  have lines: "split_lines three_assignments = [''Glucose 90''] @ ''Glucose 300'' # [''Hemoglobin 13.5'']"
    by code_simp
  have hit: "scan_parameters (map fst NORMAL_RANGES) ''Glucose 300'' = Some (''Glucose'', 300)"
    by code_simp
  have later: "\<forall>l \<in> set [''Hemoglobin 13.5''].
      map_option fst (scan_parameters (map fst NORMAL_RANGES) l) \<noteq> Some ''Glucose''"
    by code_simp
  from parse_medical_data_last_wins [OF lines hit later] show ?thesis .
qed

section \<open>Extracted values are never negative\<close>

lemma float_of_nonneg: "0 \<le> float_of tok"
  by (simp add: float_of_def Let_def)

lemma scan_parameters_nonneg: "scan_parameters ps line = Some (p, v) \<Longrightarrow> 0 \<le> v"
  by (induction ps) (auto simp: float_of_nonneg split: if_splits list.splits)

lemma set_update_cases:
  "x \<in> set (AList.update k v al) \<Longrightarrow> x = (k, v) \<or> x \<in> set al"
  by (induction al) (auto split: if_splits)

lemma parse_lines_nonneg:
  "\<forall>pv \<in> set data. 0 \<le> snd pv \<Longrightarrow> \<forall>pv \<in> set (parse_lines data ls). 0 \<le> snd pv"
proof (induction ls arbitrary: data)
  case Nil
  then show ?case by simp
next
  case (Cons l ls)
  show ?case
  proof (cases "scan_parameters (map fst NORMAL_RANGES) l")
    case None
    with Cons show ?thesis by simp
  next
    case (Some pv)
    obtain p v where pv: "pv = (p, v)" by (cases pv)
    with Some have "0 \<le> v" by (auto dest: scan_parameters_nonneg)
    with Cons.prems have "\<forall>x \<in> set (AList.update p v data). 0 \<le> snd x"
      by (auto dest!: set_update_cases)
    from Cons.IH [OF this] Some pv show ?thesis by simp
  qed
qed

text \<open>
  Claim C10. Every value returned by \<^const>\<open>parse_medical_data\<close> is non-negative;
  hence, in the classified data of any text, an entry whose range minimum is 0 is never
  Low, and Cholesterol, LDL and Triglycerides are such entries.
\<close>

theorem parse_medical_data_nonneg:
  "(\<forall>pv \<in> set (parse_medical_data text). 0 \<le> snd pv) \<and>
   (\<forall>e \<in> set (classify_data (parse_medical_data text)).
      0 \<le> val e \<and>
      (range_min e = 0 \<longrightarrow> classification e \<noteq> ''Low'') \<and>
      (parameter e \<in> {''Cholesterol'', ''LDL'', ''Triglycerides''} \<longrightarrow>
         range_min e = 0 \<and> classification e \<noteq> ''Low''))"
proof (intro conjI ballI)
  show nonneg: "\<And>pv. pv \<in> set (parse_medical_data text) \<Longrightarrow> 0 \<le> snd pv"
    using parse_lines_nonneg [of "[]" "split_lines text"]
    by (simp add: parse_medical_data_def)
  fix e assume "e \<in> set (classify_data (parse_medical_data text))"
  then obtain r :: range_info where r: "map_of NORMAL_RANGES (parameter e) = Some r"
    "(parameter e, val e) \<in> set (parse_medical_data text)" "range_min e = rmin r"
    "classification e =
       (if val e < rmin r then ''Low'' else if val e > rmax r then ''High'' else ''Normal'')"
    using classify_data_entry by blast
  from nonneg [OF r(2)] show v: "0 \<le> val e" by simp
  from v r show low: "range_min e = 0 \<longrightarrow> classification e \<noteq> ''Low''" by auto
  from r(1,3) have "parameter e \<in> {''Cholesterol'', ''LDL'', ''Triglycerides''} \<longrightarrow> range_min e = 0"
    by (auto simp: NORMAL_RANGES_def)
  with low show "parameter e \<in> {''Cholesterol'', ''LDL'', ''Triglycerides''} \<longrightarrow>
         range_min e = 0 \<and> classification e \<noteq> ''Low''" by blast
qed

theorem parse_medical_data_nonneg_witness:
  "(''Cholesterol'', 0) \<in> set (parse_medical_data ''Cholesterol 0'') \<and>
   cholesterol_zero \<in> set (classify_data (parse_medical_data ''Cholesterol 0'')) \<and>
   parameter cholesterol_zero = ''Cholesterol'' \<and>
   classification cholesterol_zero \<noteq> ''Low''"
proof -
  have parsed: "(''Cholesterol'', 0) \<in> set (parse_medical_data ''Cholesterol 0'')"
    by code_simp
  have mem: "cholesterol_zero \<in> set (classify_data (parse_medical_data ''Cholesterol 0''))"
    by code_simp
  have name: "parameter cholesterol_zero = ''Cholesterol''"
    by (simp add: cholesterol_zero_def)
  from parse_medical_data_nonneg [of "''Cholesterol 0''", THEN conjunct2, THEN bspec, OF mem] name
  have "classification cholesterol_zero \<noteq> ''Low''" by simp
  with parsed mem name show ?thesis by simp
qed

section \<open>Insights for classified data\<close>






text \<open>
  Called by hand on an entry that no text produces, Cholesterol classified Low, the
  function raises: the membership test covers the parameter only.
\<close>

lemma generate_insights_direct_cholesterol_low:
  "generate_insights [cholesterol_low] = Inl (KeyError ''low'')"
  by code_simp



section \<open>Trend aggregation\<close>

lemma add_entries_lookup:
  "map_of (add_entries date ds trends) p =
     (if series_of date p ds = [] then map_of trends p
      else Some (series_so_far trends p @ series_of date p ds))"
proof (induction ds arbitrary: trends)
  case Nil
  then show ?case by (simp add: series_of_def)
next
  case (Cons d ds)
  define q where "q = parameter d"
  define trends2 where
    "trends2 = AList.update q (series_so_far trends q @ [entry_of date d]) trends"
  have step: "add_entries date (d # ds) trends = add_entries date ds trends2"
  proof (cases "q \<in> set (map fst trends)")
    case True
    then show ?thesis
      by (simp add: Let_def q_def trends2_def series_so_far_def entry_of_def)
  next
    case False
    then have "map_of trends q = None"
      by (simp add: map_of_eq_None_iff)
    with False show ?thesis
      by (simp add: Let_def q_def trends2_def series_so_far_def entry_of_def update_conv')
  qed
  have look: "map_of trends2 = (map_of trends)(q \<mapsto> series_so_far trends q @ [entry_of date d])"
    by (simp add: trends2_def update_conv')
  show ?case
  proof (cases "q = p")
    case True
    then have "series_of date p (d # ds) = entry_of date d # series_of date p ds"
      by (simp add: series_of_def q_def)
    moreover from True look
    have "series_so_far trends2 p = series_so_far trends p @ [entry_of date d]"
      by (simp add: series_so_far_def)
    moreover from True look have "map_of trends2 p = Some (series_so_far trends p @ [entry_of date d])"
      by simp
    ultimately show ?thesis
      unfolding step Cons.IH by simp
  next
    case False
    then have "series_of date p (d # ds) = series_of date p ds"
      by (auto simp: series_of_def q_def)
    moreover from False look have "map_of trends2 p = map_of trends p"
      by simp
    moreover from this have "series_so_far trends2 p = series_so_far trends p"
      by (simp add: series_so_far_def)
    ultimately show ?thesis
      unfolding step Cons.IH by simp
  qed
qed

lemma series_so_far_add:
  "series_so_far (add_entries date ds trends) p = series_so_far trends p @ series_of date p ds"
  by (simp add: series_so_far_def add_entries_lookup)

lemma collect_trends_lookup:
  "map_of (collect_trends isoformat reports trends) p =
     (if all_series isoformat p reports = [] then map_of trends p
      else Some (series_so_far trends p @ all_series isoformat p reports))"
proof (induction reports arbitrary: trends)
  case Nil
  then show ?case by (simp add: all_series_def)
next
  case (Cons r reports)
  show ?case
  proof (cases "processed_data r")
    case None
    with Cons.IH [of trends] show ?thesis by (simp add: all_series_def)
  next
    case (Some ds)
    show ?thesis
    proof (cases "ds = []")
      case True
      with Some Cons.IH [of trends] show ?thesis by (simp add: all_series_def series_of_def)
    next
      case False
      have split: "all_series isoformat p (r # reports) =
            series_of (isoformat (created_at r)) p ds @ all_series isoformat p reports"
        using Some by (simp add: all_series_def)
      from Some False
      have "collect_trends isoformat (r # reports) trends =
            collect_trends isoformat reports (add_entries (isoformat (created_at r)) ds trends)"
        by simp
      then show ?thesis
        unfolding split
        by (simp add: Cons.IH add_entries_lookup series_so_far_add)
    qed
  qed
qed

lemma filter_distinct_find:
  "distinct (map f xs) \<Longrightarrow>
   filter (\<lambda>d. f d = p) xs = (case find (\<lambda>d. f d = p) xs of None \<Rightarrow> [] | Some d \<Rightarrow> [d])"
proof (induction xs)
  case Nil
  then show ?case by simp
next
  case (Cons x xs)
  show ?case
  proof (cases "f x = p")
    case True
    from Cons.prems have "f x \<notin> f ` set xs" by simp
    with True have "\<forall>d \<in> set xs. f d \<noteq> p" by blast
    then have "filter (\<lambda>d. f d = p) xs = []"
      by (simp add: filter_empty_conv)
    with True show ?thesis by simp
  next
    case False
    with Cons show ?thesis by simp
  qed
qed

lemma concat_option: 
  "concat (map (\<lambda>r. case g r of None \<Rightarrow> [] | Some x \<Rightarrow> [x]) rs) = List.map_filter g rs"
  by (induction rs) (auto split: option.splits)

lemma all_series_distinct:
  assumes "\<forall>r \<in> set reports. \<forall>ds. processed_data r = Some ds \<longrightarrow> distinct (map parameter ds)"
  shows "all_series isoformat p reports = List.map_filter (report_entry isoformat p) reports"
proof -
  have "\<forall>r \<in> set reports. (case processed_data r of None \<Rightarrow> []
            | Some ds \<Rightarrow> series_of (isoformat (created_at r)) p ds)
        = (case report_entry isoformat p r of None \<Rightarrow> [] | Some x \<Rightarrow> [x])"
    using assms
    by (auto simp: report_entry_def series_of_def filter_distinct_find split: option.splits)
  then have "all_series isoformat p reports =
      concat (map (\<lambda>r. case report_entry isoformat p r of None \<Rightarrow> [] | Some x \<Rightarrow> [x]) reports)"
    unfolding all_series_def by (simp cong: map_cong)
  then show ?thesis by (simp add: concat_option)
qed

lemma report_entry_present:
  "report_entry isoformat p r \<noteq> None \<longleftrightarrow>
     (\<exists>ds. processed_data r = Some ds \<and> p \<in> set (map parameter ds))"
proof (cases "processed_data r")
  case None
  then show ?thesis by (simp add: report_entry_def)
next
  case (Some ds)
  have "find (\<lambda>d. parameter d = p) ds \<noteq> None \<longleftrightarrow> (\<exists>d \<in> set ds. parameter d = p)"
    by (auto simp: find_None_iff)
  with Some show ?thesis by (auto simp: report_entry_def)
qed

lemma add_entries_distinct:
  "distinct (map fst trends) \<Longrightarrow> distinct (map fst (add_entries date ds trends))"
  by (induction ds arbitrary: trends) (auto simp: Let_def distinct_update)

lemma collect_trends_distinct:
  "distinct (map fst trends) \<Longrightarrow> distinct (map fst (collect_trends isoformat reports trends))"
  by (induction reports arbitrary: trends) (auto simp: add_entries_distinct split: option.splits)

text \<open>The data that the pipeline stores for a report names every parameter once.\<close>

lemma parse_lines_distinct:
  "distinct (map fst data) \<Longrightarrow> distinct (map fst (parse_lines data ls))"
  by (induction ls arbitrary: data) (auto simp: distinct_update split: option.splits)

lemma classify_data_distinct:
  assumes "distinct (map fst data)"
  shows "distinct (map parameter (classify_data data))"
proof -
  have "map parameter (classify_data data) =
        map fst (map (\<lambda>e. (parameter e, val e)) (classify_data data))"
    by (simp add: o_def)
  also have "\<dots> = map fst (filter (\<lambda>pv. map_of NORMAL_RANGES (fst pv) \<noteq> None) data)"
    by (simp only: classify_data_keys)
  finally show ?thesis
    using assms by (simp add: distinct_map_filter)
qed

lemma pipeline_parameters_distinct:
  "distinct (map parameter (classify_data (parse_medical_data text)))"
  by (simp add: parse_medical_data_def classify_data_distinct parse_lines_distinct)

text \<open>
  Claim C9. The reports are historical results of the pipeline, so the data of each
  lists a parameter at most once. Then \<^const>\<open>generate_trends\<close> maps every parameter
  \<open>p\<close> to the list that holds, for each report containing \<open>p\<close> and in the order of the
  reports, the one entry made of the report's date and of the value and classification
  of \<open>p\<close> in that report; nothing is sorted or merged. The keys are distinct, and \<open>p\<close> is a
  key exactly when some report contains it.
\<close>

theorem generate_trends_series:
  assumes "\<forall>r \<in> set reports. \<forall>ds. processed_data r = Some ds \<longrightarrow> distinct (map parameter ds)"
  shows "distinct (map fst (generate_trends isoformat reports)) \<and>
         map_of (generate_trends isoformat reports) p =
           (if List.map_filter (report_entry isoformat p) reports = [] then None
            else Some (List.map_filter (report_entry isoformat p) reports)) \<and>
         (p \<in> set (map fst (generate_trends isoformat reports)) \<longleftrightarrow>
            (\<exists>r \<in> set reports. \<exists>ds. processed_data r = Some ds \<and> p \<in> set (map parameter ds)))"
proof (intro conjI)
  show "distinct (map fst (generate_trends isoformat reports))"
    by (simp add: generate_trends_def collect_trends_distinct)
  show look: "map_of (generate_trends isoformat reports) p =
           (if List.map_filter (report_entry isoformat p) reports = [] then None
            else Some (List.map_filter (report_entry isoformat p) reports))"
    using all_series_distinct [OF assms, of isoformat p]
    by (simp add: generate_trends_def collect_trends_lookup series_so_far_def)
  have "p \<in> set (map fst (generate_trends isoformat reports)) \<longleftrightarrow>
        map_of (generate_trends isoformat reports) p \<noteq> None"
    by (simp add: map_of_eq_None_iff)
  also have "\<dots> \<longleftrightarrow> List.map_filter (report_entry isoformat p) reports \<noteq> []"
    using look by simp
  also have "\<dots> \<longleftrightarrow> (\<exists>r \<in> set reports. report_entry isoformat p r \<noteq> None)"
    by (auto simp: List.map_filter_def filter_empty_conv)
  also have "\<dots> \<longleftrightarrow> (\<exists>r \<in> set reports. \<exists>ds. processed_data r = Some ds \<and> p \<in> set (map parameter ds))"
    by (simp only: report_entry_present)
  finally show "p \<in> set (map fst (generate_trends isoformat reports)) \<longleftrightarrow>
            (\<exists>r \<in> set reports. \<exists>ds. processed_data r = Some ds \<and> p \<in> set (map parameter ds))" .
qed

theorem generate_trends_series_witness:
  "map_of (generate_trends (\<lambda>t. t) history) ''Glucose'' =
     Some [\<lparr>entry_date = ''2024-01-05T10:00:00'', entry_value = 90,
             entry_classification = ''Normal''\<rparr>,
           \<lparr>entry_date = ''2024-03-05T10:00:00'', entry_value = 300,
             entry_classification = ''High''\<rparr>,
           \<lparr>entry_date = ''2024-03-05T10:00:00'', entry_value = 300,
             entry_classification = ''High''\<rparr>] \<and>
   map_of (generate_trends (\<lambda>t. t) history) ''HDL'' = None"
proof -
  have d: "\<forall>r \<in> set history. \<forall>ds. processed_data r = Some ds \<longrightarrow> distinct (map parameter ds)"
    by (simp add: history_def glucose_90_def glucose_300_def hemoglobin_13_def)
  have g: "List.map_filter (report_entry (\<lambda>t. t) ''Glucose'') history =
      [\<lparr>entry_date = ''2024-01-05T10:00:00'', entry_value = 90,
             entry_classification = ''Normal''\<rparr>,
           \<lparr>entry_date = ''2024-03-05T10:00:00'', entry_value = 300,
             entry_classification = ''High''\<rparr>,
           \<lparr>entry_date = ''2024-03-05T10:00:00'', entry_value = 300,
             entry_classification = ''High''\<rparr>]"
    by (simp add: history_def report_entry_def entry_of_def glucose_90_def glucose_300_def hemoglobin_13_def)
  have h: "List.map_filter (report_entry (\<lambda>t. t) ''HDL'') history = []"
    by (simp add: history_def report_entry_def entry_of_def glucose_90_def glucose_300_def hemoglobin_13_def)
  from generate_trends_series [OF d, of "\<lambda>t. t" "''Glucose''"] g
    generate_trends_series [OF d, of "\<lambda>t. t" "''HDL''"] h
  show ?thesis by simp
qed

end
